theory Spec2Isabelle
  imports Main
begin

section \<open>The store of the blog application\<close>

text \<open>
  The application keeps one Vuex store (constructed in the entry script) and one route
  table (\<^verbatim>\<open>router.js\<close>, in two variants). This theory embeds both and proves what the
  specification says about them.
\<close>

subsection \<open>State and getters\<close>

text \<open>
  A value kept in the store is a JavaScript value: \<^verbatim>\<open>undefined\<close>, \<^verbatim>\<open>null\<close>, a boolean,
  a string or an object, seen as the list of its properties.
\<close>

datatype jsval =
    JUndefined
  | JNull
  | JBool bool
  | JStr string
  | JObj "(string \<times> jsval) list"

text \<open>
  The field \<^verbatim>\<open>image\<close> is named \<open>image_st\<close> here. The two fields that mutations assign
  hold a JavaScript value, since nothing in the store checks what is assigned.
\<close>

record state =
  base :: string
  image_st :: jsval
  images :: "string list"
  backgroundInTransition :: jsval

definition initial_state :: state where
  "initial_state =
     \<lparr> base = ''https://raw.githubusercontent.com/MSusik/msusik.github.io/development/src/assets/backs/'',
       image_st = JStr ''2.png'',
       images = [''1.png'', ''2.png'', ''3.png'', ''4.png'', ''5.png'', ''6.png''],
       backgroundInTransition = JBool False \<rparr>"



definition getters_image :: "state \<Rightarrow> jsval" where
  "getters_image state = image_st state"

definition getters_backgroundInTransition :: "state \<Rightarrow> jsval" where
  "getters_backgroundInTransition state = backgroundInTransition state"

subsection \<open>Payloads and destructuring\<close>

text \<open>
  Code that runs during a commit acts on the store's state and on the browser, of which
  the model keeps the image URLs requested so far (each one the \<^verbatim>\<open>src\<close> assigned to a
  fresh \<^verbatim>\<open>Image\<close>, oldest first).
\<close>

type_synonym world = "state \<times> string list"

text \<open>
  JavaScript can throw any value; the language itself throws a \<^verbatim>\<open>TypeError\<close> when a
  property of \<^verbatim>\<open>undefined\<close> or \<^verbatim>\<open>null\<close> is read.
\<close>

datatype error = TypeError | Thrown jsval

text \<open>
  The payload of a mutation is whatever the caller hands to \<^verbatim>\<open>commit\<close>: \<^verbatim>\<open>undefined\<close>
  (no payload given), \<^verbatim>\<open>null\<close>, a boolean, a string or an object. A property of an
  object is a data property, holding a value, or an accessor (\<^verbatim>\<open>get image () { ... }\<close>,
  or the \<^verbatim>\<open>get\<close> trap of a \<^verbatim>\<open>Proxy\<close>), whose code runs when the property is read: it
  can write the store, which is not in strict mode, request images, and return a value
  or throw. Properties are kept as a list of name and property (where a name occurs
  twice, the first entry is the property).
\<close>

datatype property =
    Data jsval
  | Accessor "world \<Rightarrow> world \<times> (error + jsval)"

datatype payload =
    PUndefined
  | PNull
  | PBool bool
  | PStr string
  | PObj "(string \<times> property) list"

text \<open>
  A parameter pattern \<^verbatim>\<open>{ k }\<close> reads property \<open>k\<close> of the argument. It throws a
  \<^verbatim>\<open>TypeError\<close> on \<^verbatim>\<open>undefined\<close> and \<^verbatim>\<open>null\<close>. On an object it yields the value of a
  data property, runs an accessor, and yields \<^verbatim>\<open>undefined\<close> when the object has no
  property of that name. On a boolean or a string it yields \<^verbatim>\<open>undefined\<close>: the store only
  reads the names \<^verbatim>\<open>image\<close> and \<^verbatim>\<open>value\<close>, which neither wrapper prototype defines.
\<close>

fun destructure :: "world \<Rightarrow> payload \<Rightarrow> string \<Rightarrow> world \<times> (error + jsval)" where
  "destructure w PUndefined k = (w, Inl TypeError)"
| "destructure w PNull k = (w, Inl TypeError)"
| "destructure w (PBool b) k = (w, Inr JUndefined)"
| "destructure w (PStr s) k = (w, Inr JUndefined)"
| "destructure w (PObj ps) k =
     (case map_of ps k of
        None \<Rightarrow> (w, Inr JUndefined)
      | Some (Data v) \<Rightarrow> (w, Inr v)
      | Some (Accessor getter) \<Rightarrow> getter w)"

subsection \<open>Mutations\<close>

text \<open>
  A mutation handler is called with the state and the payload. What it leaves behind is
  the state \<open>after\<close>, the image URLs requested while it ran, and the exception thrown,
  if any.
\<close>

record outcome =
  after :: state
  requests :: "string list"
  thrown :: "error option"

text \<open>
  \<^verbatim>\<open>Array.prototype.forEach\<close>: the callback runs once per element, first to last, each
  run starting from what the previous one left.
\<close>

fun forEach :: "'a list \<Rightarrow> ('a \<Rightarrow> 'w \<Rightarrow> 'w) \<Rightarrow> 'w \<Rightarrow> 'w" where
  "forEach [] callback w = w"
| "forEach (x # xs) callback w = forEach xs callback (callback x w)"

text \<open>\<^verbatim>\<open>new Image().src = url\<close>: one more request, the state is not touched.\<close>

definition new_Image_src :: "string \<Rightarrow> world \<Rightarrow> world" where
  "new_Image_src url w = (fst w, snd w @ [url])"

text \<open>
  \<^verbatim>\<open>cacheImages\<close> declares no payload parameter, so the payload is never read. Its
  callback reads \<^verbatim>\<open>state.base\<close> each time it runs, so the model reads it from the state
  of that moment.
\<close>

definition cacheImages :: "state \<Rightarrow> payload \<Rightarrow> outcome" where
  "cacheImages state payload =
     (let w = forEach (images state) (\<lambda>img w. new_Image_src (base (fst w) @ img) w) (state, [])
      in \<lparr> after = fst w, requests = snd w, thrown = None \<rparr>)"

text \<open>
  The two setters read their property first, which may run an accessor of the payload,
  and then assign their field of the state as the read left it.
\<close>

definition changeImage :: "state \<Rightarrow> payload \<Rightarrow> outcome" where
  "changeImage state payload =
     (case destructure (state, []) payload ''image'' of
        (w, Inl e) \<Rightarrow> \<lparr> after = fst w, requests = snd w, thrown = Some e \<rparr>
      | (w, Inr image') \<Rightarrow>
          \<lparr> after = (fst w)\<lparr>image_st := image'\<rparr>, requests = snd w, thrown = None \<rparr>)"

definition changeBackgroundInTransition :: "state \<Rightarrow> payload \<Rightarrow> outcome" where
  "changeBackgroundInTransition state payload =
     (case destructure (state, []) payload ''value'' of
        (w, Inl e) \<Rightarrow> \<lparr> after = fst w, requests = snd w, thrown = Some e \<rparr>
      | (w, Inr value') \<Rightarrow>
          \<lparr> after = (fst w)\<lparr>backgroundInTransition := value'\<rparr>, requests = snd w,
            thrown = None \<rparr>)"




subsection \<open>Payloads whose reading writes the store\<close>

text \<open>
  Reading property \<open>k\<close> of a payload leaves the store alone when the state after the read
  is the state before it. That is so for every payload without an accessor under that
  name, and for an accessor that only computes a value.
\<close>

definition leaves_store :: "payload \<Rightarrow> string \<Rightarrow> state \<Rightarrow> bool" where
  "leaves_store payload k state = (fst (fst (destructure (state, []) payload k)) = state)"






section \<open>The route table\<close>

text \<open>
  \<^verbatim>\<open>router.js\<close> hands the router a list of route entries. An entry has a path and either
  a redirect target or a name and a component. The repository has the file in two
  variants: \<open>routes\<close> is the one with the second article, \<open>routes_part_000\<close> the one
  with the About page.
\<close>

datatype component = Upmath | CudaPart1 | About

record route =
  path :: string
  redirect :: "string option"
  name :: "string option"
  component :: "component option"

definition routes :: "route list" where
  "routes =
     [ \<lparr> path = ''/'',
         redirect = Some ''/implementing_smith_waterman_on_CUDA_part_1'',
         name = None, component = None \<rparr>,
       \<lparr> path = ''/upmath'', redirect = None,
         name = Some ''Upmath'', component = Some Upmath \<rparr>,
       \<lparr> path = ''/implementing_smith_waterman_on_CUDA_part_1'', redirect = None,
         name = Some ''CudaPart1'', component = Some CudaPart1 \<rparr> ]"

definition routes_part_000 :: "route list" where
  "routes_part_000 =
     [ \<lparr> path = ''/'', redirect = Some ''/upmath'', name = None, component = None \<rparr>,
       \<lparr> path = ''/upmath'', redirect = None,
         name = Some ''Upmath'', component = Some Upmath \<rparr>,
       \<lparr> path = ''/about'', redirect = None,
         name = Some ''About'', component = Some About \<rparr> ]"

text \<open>
  Navigation, as the router library resolves a location against such a table: the first
  entry whose path is the location decides; a redirect entry sends the navigation on to
  its target, any other entry renders its component at that location; with no entry
  nothing is rendered. The result is the location the navigation ends at and what is
  rendered there, or \<open>None\<close> when the redirects never settle. Only locations spelled as
  the table spells its paths are covered: the library's tolerance for letter case and a
  closing slash is left out.
\<close>

fun resolve :: "nat \<Rightarrow> route list \<Rightarrow> string \<Rightarrow> (string \<times> component option) option" where
  "resolve 0 rs loc = None"
| "resolve (Suc n) rs loc =
     (case find (\<lambda>r. path r = loc) rs of
        None \<Rightarrow> Some (loc, None)
      | Some r \<Rightarrow>
          (case redirect r of
             Some target \<Rightarrow> resolve n rs target
           | None \<Rightarrow> Some (loc, component r)))"

definition navigate :: "route list \<Rightarrow> string \<Rightarrow> (string \<times> component option) option" where
  "navigate rs loc = resolve (Suc (length rs)) rs loc"

section \<open>Properties of the store\<close>

subsection \<open>The preload loop\<close>

lemma forEach_new_Image_src:
  "forEach xs (\<lambda>img w. new_Image_src (base (fst w) @ img) w) (s, rs) =
     (s, rs @ map (\<lambda>img. base s @ img) xs)"
  by (induction xs arbitrary: rs) (simp_all add: new_Image_src_def)

lemma cacheImages_outcome:
  "cacheImages state payload =
     \<lparr> after = state, requests = map (\<lambda>img. base state @ img) (images state), thrown = None \<rparr>"
  by (simp add: cacheImages_def forEach_new_Image_src)

subsection \<open>The setters\<close>







text \<open>Reading a payload that has no accessor under the name leaves the store alone.\<close>

lemma leaves_store_plain:
  "leaves_store PUndefined k state"
  "leaves_store PNull k state"
  "leaves_store (PBool b) k state"
  "leaves_store (PStr s) k state"
  "leaves_store (PObj []) k state"
  "leaves_store (PObj ((k, Data v) # ps)) k state"
  by (simp_all add: leaves_store_def)

text \<open>
  Claim C1. For every filename \<open>f\<close>, after \<^verbatim>\<open>changeImage\<close> with payload
  \<^verbatim>\<open>{ image: f }\<close> the getter \<^verbatim>\<open>image\<close> returns exactly \<open>f\<close>.
\<close>

theorem changeImage_getter:
  "getters_image (after (changeImage state (PObj [(''image'', Data (JStr f))]))) = JStr f"
  by (simp add: changeImage_def getters_image_def)

text \<open>
  Claim C4. For every boolean \<open>b\<close>, after \<^verbatim>\<open>changeBackgroundInTransition\<close> with payload
  \<^verbatim>\<open>{ value: b }\<close> the getter \<^verbatim>\<open>backgroundInTransition\<close> returns exactly \<open>b\<close>.
\<close>

theorem changeBackgroundInTransition_getter:
  "getters_backgroundInTransition
     (after (changeBackgroundInTransition state (PObj [(''value'', Data (JBool b))]))) = JBool b"
  by (simp add: changeBackgroundInTransition_def getters_backgroundInTransition_def)

text \<open>
  Claim C2. \<^verbatim>\<open>cacheImages\<close> issues one image request per entry of the images list, each
  for the base prefix followed by the entry's filename: the requested URLs are the images
  list mapped through \<open>base @ _\<close>, in order. For the configured store these are six URLs.
\<close>

theorem cacheImages_requests:
  "requests (cacheImages state payload) = map (\<lambda>img. base state @ img) (images state) \<and>
   length (requests (cacheImages state payload)) = length (images state) \<and>
   requests (cacheImages initial_state payload) =
     [ ''https://raw.githubusercontent.com/MSusik/msusik.github.io/development/src/assets/backs/1.png'',
       ''https://raw.githubusercontent.com/MSusik/msusik.github.io/development/src/assets/backs/2.png'',
       ''https://raw.githubusercontent.com/MSusik/msusik.github.io/development/src/assets/backs/3.png'',
       ''https://raw.githubusercontent.com/MSusik/msusik.github.io/development/src/assets/backs/4.png'',
       ''https://raw.githubusercontent.com/MSusik/msusik.github.io/development/src/assets/backs/5.png'',
       ''https://raw.githubusercontent.com/MSusik/msusik.github.io/development/src/assets/backs/6.png'' ]"
proof -
  have general: "requests (cacheImages s p) = map (\<lambda>img. base s @ img) (images s)" for s p
    by (simp add: cacheImages_outcome)
  have configured: "requests (cacheImages initial_state payload) =
      map (\<lambda>img. base initial_state @ img) (images initial_state)"
    by (rule general)
  show ?thesis
    unfolding configured by (simp add: general initial_state_def)
qed







text \<open>
  Claim C8. \<^verbatim>\<open>changeImage\<close> does not check its argument against the images list: for
  every string \<open>f\<close> it throws nothing and sets \<^verbatim>\<open>state.image\<close> to \<open>f\<close>. In the
  configured store \<^verbatim>\<open>7.png\<close>, which is not in the list, is accepted like any other.
\<close>

theorem changeImage_no_validation:
  "thrown (changeImage state (PObj [(''image'', Data (JStr f))])) = None \<and>
   image_st (after (changeImage state (PObj [(''image'', Data (JStr f))]))) = JStr f \<and>
   ''7.png'' \<notin> set (images initial_state) \<and>
   image_st (after (changeImage initial_state (PObj [(''image'', Data (JStr ''7.png''))]))) =
     JStr ''7.png''"
  by (simp add: changeImage_def initial_state_def)

text \<open>
  Claim C9. \<^verbatim>\<open>cacheImages\<close> leaves the whole state as it was (\<^verbatim>\<open>base\<close>, \<^verbatim>\<open>images\<close>,
  \<^verbatim>\<open>image\<close> and \<^verbatim>\<open>backgroundInTransition\<close>) and throws nothing; what it does is
  request images.
\<close>

theorem cacheImages_state_unchanged:
  "after (cacheImages state payload) = state \<and>
   base (after (cacheImages state payload)) = base state \<and>
   images (after (cacheImages state payload)) = images state \<and>
   image_st (after (cacheImages state payload)) = image_st state \<and>
   backgroundInTransition (after (cacheImages state payload)) = backgroundInTransition state \<and>
   thrown (cacheImages state payload) = None"
  by (simp add: cacheImages_outcome)




section \<open>Properties of the route table\<close>

lemma find_root:
  "find (\<lambda>r. path r = ''/'') routes =
     Some \<lparr> path = ''/'', redirect = Some ''/implementing_smith_waterman_on_CUDA_part_1'',
            name = None, component = None \<rparr>"
  "find (\<lambda>r. path r = ''/'') routes_part_000 =
     Some \<lparr> path = ''/'', redirect = Some ''/upmath'', name = None, component = None \<rparr>"
  by (simp_all add: routes_def routes_part_000_def)

lemma navigate_second:
  "navigate routes ''/implementing_smith_waterman_on_CUDA_part_1'' =
     Some (''/implementing_smith_waterman_on_CUDA_part_1'', Some CudaPart1)"
  "navigate routes_part_000 ''/about'' = Some (''/about'', Some About)"
  by (simp_all add: navigate_def routes_def routes_part_000_def)

lemma navigate_upmath:
  "navigate routes ''/upmath'' = Some (''/upmath'', Some Upmath)"
  "navigate routes_part_000 ''/upmath'' = Some (''/upmath'', Some Upmath)"
  by (simp_all add: navigate_def routes_def routes_part_000_def)

text \<open>
  Claim C3. Navigating to \<^verbatim>\<open>/\<close> redirects to the default route: in either variant the
  entry for \<^verbatim>\<open>/\<close> is a redirect with no component, and the navigation ends at the
  variant's default article, which is rendered.
\<close>

theorem root_redirects:
  "find (\<lambda>r. path r = ''/'') routes =
     Some \<lparr> path = ''/'', redirect = Some ''/implementing_smith_waterman_on_CUDA_part_1'',
            name = None, component = None \<rparr> \<and>
   navigate routes ''/'' = Some (''/implementing_smith_waterman_on_CUDA_part_1'', Some CudaPart1) \<and>
   find (\<lambda>r. path r = ''/'') routes_part_000 =
     Some \<lparr> path = ''/'', redirect = Some ''/upmath'', name = None, component = None \<rparr> \<and>
   navigate routes_part_000 ''/'' = Some (''/upmath'', Some Upmath)"
proof -
  have "navigate routes ''/'' = navigate routes ''/implementing_smith_waterman_on_CUDA_part_1''"
    by (simp add: navigate_def routes_def)
  moreover have "navigate routes_part_000 ''/'' = navigate routes_part_000 ''/upmath''"
    by (simp add: navigate_def routes_part_000_def)
  ultimately show ?thesis
    by (simp add: find_root navigate_second navigate_upmath)
qed

text \<open>
  Claim C5. The route table has exactly three entries: \<^verbatim>\<open>/\<close>, \<^verbatim>\<open>/upmath\<close> with the
  Upmath component, and, by variant, \<^verbatim>\<open>/implementing_smith_waterman_on_CUDA_part_1\<close>
  with CudaPart1 or \<^verbatim>\<open>/about\<close> with About. Navigating to \<^verbatim>\<open>/upmath\<close> renders Upmath,
  navigating to the third path renders its component.
\<close>

theorem routes_table:
  "length routes = 3 \<and>
   map path routes = [''/'', ''/upmath'', ''/implementing_smith_waterman_on_CUDA_part_1''] \<and>
   map component routes = [None, Some Upmath, Some CudaPart1] \<and>
   navigate routes ''/upmath'' = Some (''/upmath'', Some Upmath) \<and>
   navigate routes ''/implementing_smith_waterman_on_CUDA_part_1'' =
     Some (''/implementing_smith_waterman_on_CUDA_part_1'', Some CudaPart1) \<and>
   length routes_part_000 = 3 \<and>
   map path routes_part_000 = [''/'', ''/upmath'', ''/about''] \<and>
   map component routes_part_000 = [None, Some Upmath, Some About] \<and>
   navigate routes_part_000 ''/upmath'' = Some (''/upmath'', Some Upmath) \<and>
   navigate routes_part_000 ''/about'' = Some (''/about'', Some About)"
proof -
  have "length routes = 3" "length routes_part_000 = 3"
    by (simp_all add: routes_def routes_part_000_def)
  moreover have
    "map path routes = [''/'', ''/upmath'', ''/implementing_smith_waterman_on_CUDA_part_1'']"
    "map component routes = [None, Some Upmath, Some CudaPart1]"
    by (simp_all add: routes_def)
  moreover have
    "map path routes_part_000 = [''/'', ''/upmath'', ''/about'']"
    "map component routes_part_000 = [None, Some Upmath, Some About]"
    by (simp_all add: routes_part_000_def)
  ultimately show ?thesis
    by (simp add: navigate_second navigate_upmath)
qed

end
